theory Spec2Isabelle
  imports Complex_Main
begin

section \<open>Python values handled by the adapter\<close>

text \<open>
  The exception classes that \<^verbatim>\<open>lale/lib/lale/smac.py\<close> raises or tells apart in an
  \<^verbatim>\<open>except\<close> clause. \<open>OtherError\<close> stands for every class that is none of the named
  ones nor a subclass of them; an instance of a subclass is represented by its named
  base class, which is what \<^verbatim>\<open>except C\<close> tests. \<^verbatim>\<open>except BaseException\<close> matches all.
\<close>

datatype exn_class =
    ValueError
  | AttributeError
  | KeyError
  | NotImplementedError
  | AssertionError
  | BudgetExhaustedException
  | OtherError

datatype exn = Exn (class_of: exn_class) (exn_str: string)

text \<open>
  An instance attribute is either not there at all or holds a value; the value itself
  may be Python's \<^verbatim>\<open>None\<close>, an \<open>option\<close>. \<^verbatim>\<open>getattr(obj, name, default)\<close> is \<open>getattr\<close>.
\<close>

datatype 'a attribute = Missing | Present 'a

fun getattr :: "'a attribute \<Rightarrow> 'a \<Rightarrow> 'a" where
  "getattr Missing dflt = dflt"
| "getattr (Present v) dflt = v"

datatype random_state = RandomState nat

section \<open>The module logger and the world outside the module\<close>

text \<open>
  \<^verbatim>\<open>logger = logging.getLogger(__name__)\<close> is written only by this module. A record of
  the log is the level and one constructor per call site, carrying the values the
  format string receives:
  \<^item> \<open>Successful_trial\<close>: line 129, \<^verbatim>\<open>"Successful trial of SMAC"\<close>;
  \<^item> \<open>Log_loss_cannot_be_computed\<close>: line 144;
  \<^item> \<open>Error_with_pipeline e json\<close>: line 146, \<^verbatim>\<open>"Error {} with pipeline:{}"\<close>;
  \<^item> \<open>Exception_caught e\<close>: line 160, \<^verbatim>\<open>"Exception caught in SMACCV:..."\<close>;
  \<^item> \<open>Optimization_time_exceeded\<close>: line 174;
  \<^item> \<open>Error_during_optimization e\<close>: line 176;
  \<^item> \<open>ValueError_in_predicting trained e\<close>: line 188.
\<close>

datatype level = DEBUG | WARNING

datatype 'tr message =
    Successful_trial
  | Log_loss_cannot_be_computed
  | Error_with_pipeline exn string
  | Exception_caught exn
  | Optimization_time_exceeded
  | Error_during_optimization exn
  | ValueError_in_predicting "'tr option" exn

text \<open>
  Everything mutable outside the module (the clock, numpy's global generator, the
  objects of the collaborating libraries, the warning filters) is the \<open>ambient\<close> state
  of type \<open>'w\<close>. A call into a library reads and advances it, also when it raises.
\<close>

record ('tr, 'w) world =
  logged :: "(level \<times> 'tr message) list"
  ambient :: 'w

definition logger_debug :: "'tr message \<Rightarrow> ('tr, 'w) world \<Rightarrow> ('tr, 'w) world" where
  "logger_debug m \<sigma> = \<sigma>\<lparr>logged := logged \<sigma> @ [(DEBUG, m)]\<rparr>"

definition logger_warning :: "'tr message \<Rightarrow> ('tr, 'w) world \<Rightarrow> ('tr, 'w) world" where
  "logger_warning m \<sigma> = \<sigma>\<lparr>logged := logged \<sigma> @ [(WARNING, m)]\<rparr>"

definition call :: "('w \<Rightarrow> 'r \<times> 'w) \<Rightarrow> ('tr, 'w) world \<Rightarrow> 'r \<times> ('tr, 'w) world" where
  "call ext \<sigma> = (case ext (ambient \<sigma>) of (r, w') \<Rightarrow> (r, \<sigma>\<lparr>ambient := w'\<rparr>))"

section \<open>The collaborators\<close>

text \<open>
  The options dictionary of line 112; the key \<^verbatim>\<open>wallclock_limit\<close> is there only when
  \<^verbatim>\<open>max_opt_time\<close> is not \<^verbatim>\<open>None\<close>.
\<close>

record 'cs scenario_options =
  run_obj :: string
  runcount_limit :: int
  cs :: 'cs
  deterministic :: string
  abort_on_first_run_crash :: bool
  wallclock_limit :: "real option"

text \<open>
  The functions and methods the module imports and calls, none of which it defines:
  scikit-learn (\<open>check_cv\<close>, \<open>train_test_split\<close>, \<open>check_scoring\<close>, \<open>log_loss\<close>), SMAC
  (\<open>Scenario\<close>, \<open>orig_SMAC\<close> and the methods \<open>optimize\<close> and \<open>get_runhistory\<close> of the
  object it builds), the operator methods (\<open>op_fit\<close>, \<open>op_predict\<close>, \<open>op_predict_proba\<close>,
  \<open>to_json\<close>), the helpers of other modules, \<^verbatim>\<open>time.time\<close> and
  \<^verbatim>\<open>warnings.filterwarnings\<close>. Each receives exactly the arguments the source passes,
  and the ambient state. The optimizer calls the objective back, so \<open>optimize\<close> runs
  on the whole world, log included.
\<close>

record ('w, 'x, 'y, 'e, 'op, 'tr, 'cfg, 'rh, 'cv, 'sc, 'pp, 'p, 'tae, 'sm, 'sk, 'scen, 'cs) env =
  LogisticRegression :: 'e
  get_smac_space :: "'e \<Rightarrow> real option \<Rightarrow> 'w \<Rightarrow> (exn + 'cs) \<times> 'w"
  Scenario :: "'cs scenario_options \<Rightarrow> 'w \<Rightarrow> (exn + 'scen) \<times> 'w"
  check_cv :: "'cv \<Rightarrow> 'y \<Rightarrow> bool \<Rightarrow> 'w \<Rightarrow> (exn + 'cv) \<times> 'w"
  cross_val_score_track_trials ::
    "'op \<Rightarrow> 'x \<Rightarrow> 'y \<Rightarrow> 'cv \<Rightarrow> 'sc \<Rightarrow> 'w \<Rightarrow> (exn + real \<times> real \<times> real) \<times> 'w"
  train_test_split :: "'x \<Rightarrow> 'y \<Rightarrow> real \<Rightarrow> 'w \<Rightarrow> (exn + 'x \<times> 'x \<times> 'y \<times> 'y) \<times> 'w"
  time_time :: "'w \<Rightarrow> real \<times> 'w"
  op_fit :: "'op \<Rightarrow> 'x \<Rightarrow> 'y \<Rightarrow> 'w \<Rightarrow> (exn + 'tr) \<times> 'w"
  check_scoring ::
    "'op \<Rightarrow> 'sc \<Rightarrow> 'w \<Rightarrow> (exn + ('tr \<Rightarrow> 'x \<Rightarrow> 'y \<Rightarrow> 'w \<Rightarrow> (exn + real) \<times> 'w)) \<times> 'w"
  op_predict_proba :: "'tr \<Rightarrow> 'x \<Rightarrow> 'w \<Rightarrow> (exn + 'pp) \<times> 'w"
  log_loss :: "'y \<Rightarrow> 'pp \<Rightarrow> 'w \<Rightarrow> (exn + real) \<times> 'w"
  to_json :: "'op \<Rightarrow> 'w \<Rightarrow> (exn + string) \<times> 'w"
  lale_op_smac_tae ::
    "'e \<Rightarrow> ('op \<Rightarrow> ('tr, 'w) world \<Rightarrow> (exn + real) \<times> ('tr, 'w) world) \<Rightarrow> 'tae"
  orig_SMAC :: "'scen \<Rightarrow> random_state \<Rightarrow> 'tae \<Rightarrow> 'w \<Rightarrow> (exn + 'sm) \<times> 'w"
  optimize :: "'sm \<Rightarrow> ('tr, 'w) world \<Rightarrow> (exn + 'cfg) \<times> ('tr, 'w) world"
  get_runhistory :: "'sm \<Rightarrow> 'w \<Rightarrow> (exn + 'rh) \<times> 'w"
  lale_trainable_op_from_config :: "'e \<Rightarrow> 'cfg \<Rightarrow> 'w \<Rightarrow> (exn + 'op) \<times> 'w"
  op_predict :: "'tr \<Rightarrow> 'x \<Rightarrow> 'w \<Rightarrow> (exn + 'p) \<times> 'w"
  filterwarnings :: "string \<Rightarrow> 'w \<Rightarrow> 'w"
  make_sklearn_compat :: "'tr option \<Rightarrow> exn + 'sk"

section \<open>The class \<^verbatim>\<open>SMACImpl\<close>\<close>

text \<open>
  The instance attributes. \<^verbatim>\<open>__init__\<close> sets all of them but \<^verbatim>\<open>_best_estimator\<close>,
  which exists only once \<^verbatim>\<open>fit\<close> has assigned it.
\<close>

record ('e, 'cs, 'sc, 'cv, 'scen, 'rh, 'tr) SMACImpl =
  max_evals :: int
  estimator :: 'e
  search_space :: 'cs
  scoring :: 'sc
  best_score :: real
  handle_cv_failure :: bool
  cv :: 'cv
  max_opt_time :: "real option"
  scenario :: 'scen
  trials :: "'rh option"
  best_estimator :: "'tr option attribute"

text \<open>\<^verbatim>\<open>SMACImpl.__init__\<close>, lines 43 to 121.\<close>

definition init where
  "init env estimator_arg max_evals_arg cv_arg handle_cv_failure_arg scoring_arg
        best_score_arg max_opt_time_arg lale_num_grids w =
    (let estimator_v = (case estimator_arg of None \<Rightarrow> LogisticRegression env | Some e \<Rightarrow> e) in
     case get_smac_space env estimator_v lale_num_grids w of
       (Inl e, w1) \<Rightarrow> (Inl e, w1)
     | (Inr space, w1) \<Rightarrow>
         let scenario_options =
               \<lparr>run_obj = ''quality'', runcount_limit = max_evals_arg, cs = space,
                deterministic = ''true'', abort_on_first_run_crash = False,
                wallclock_limit = max_opt_time_arg\<rparr> in
         (case Scenario env scenario_options w1 of
            (Inl e, w2) \<Rightarrow> (Inl e, w2)
          | (Inr scen, w2) \<Rightarrow>
              (Inr \<lparr>max_evals = max_evals_arg, estimator = estimator_v,
                    search_space = space, scoring = scoring_arg,
                    best_score = best_score_arg,
                    handle_cv_failure = handle_cv_failure_arg, cv = cv_arg,
                    max_opt_time = max_opt_time_arg, scenario = scen,
                    trials = None, best_estimator = Missing\<rparr>, w2)))"

text \<open>\<^verbatim>\<open>SMACImpl.predict\<close>, lines 181 to 191. Reading the attribute (line 184) is outside
  the \<^verbatim>\<open>try\<close>; the method call of line 186 is inside it, and on \<^verbatim>\<open>None\<close> it raises
  AttributeError. The handler is for ValueError only.\<close>

definition predict where
  "predict env self X_eval \<sigma> =
    (let \<sigma>1 = \<sigma>\<lparr>ambient := filterwarnings env ''ignore'' (ambient \<sigma>)\<rparr> in
     case best_estimator self of
       Missing \<Rightarrow> (Inl (Exn AttributeError ''_best_estimator''), \<sigma>1)
     | Present trained \<Rightarrow>
         (case (case trained of
                  None \<Rightarrow> (Inl (Exn AttributeError ''predict''), \<sigma>1)
                | Some t \<Rightarrow> call (op_predict env t X_eval) \<sigma>1) of
            (Inr predictions, \<sigma>2) \<Rightarrow> (Inr (Some predictions), \<sigma>2)
          | (Inl e, \<sigma>2) \<Rightarrow>
              if class_of e = ValueError
              then (Inr None, logger_warning (ValueError_in_predicting trained e) \<sigma>2)
              else (Inl e, \<sigma>2)))"

text \<open>\<^verbatim>\<open>SMACImpl.get_trials\<close>, lines 193 to 201.\<close>

definition get_trials where
  "get_trials self = trials self"

text \<open>\<^verbatim>\<open>SMACImpl.get_pipeline\<close>, lines 203 to 210. The result is \<^verbatim>\<open>None\<close>, the stored
  operator (\<open>Inl\<close>) or its scikit-learn wrapper (\<open>Inr\<close>).\<close>

definition get_pipeline where
  "get_pipeline env self pipeline_name astype =
    (if pipeline_name \<noteq> None
     then Inl (Exn NotImplementedError ''Cannot get pipeline by name yet.'')
     else
       let result = getattr (best_estimator self) None in
       if result = None \<or> astype = ''lale'' then Inr (map_option Inl result)
       else if astype \<noteq> ''sklearn'' then Inl (Exn AssertionError astype)
       else (case make_sklearn_compat env result of
               Inl e \<Rightarrow> Inl e
             | Inr sk \<Rightarrow> Inr (Some (Inr sk))))"

section \<open>The method \<^verbatim>\<open>fit\<close>\<close>

text \<open>The nested function \<^verbatim>\<open>smac_train_test\<close>, lines 126 to 148. It reads \<^verbatim>\<open>self.cv\<close>,
  \<^verbatim>\<open>self.scoring\<close> and \<^verbatim>\<open>self.handle_cv_failure\<close>. On the fallback path the call of
  \<^verbatim>\<open>predict_proba\<close> (line 139) is before the inner \<^verbatim>\<open>try\<close>, which covers \<^verbatim>\<open>log_loss\<close>
  only. On line 146 the argument \<^verbatim>\<open>trainable.to_json()\<close> of the debug record is evaluated
  before the record is logged and before \<^verbatim>\<open>raise e\<close>: when it raises, its exception leaves
  the function.\<close>

definition smac_train_test where
  "smac_train_test env self trainable X_train y_train \<sigma> =
    (case call (cross_val_score_track_trials env trainable X_train y_train
                  (cv self) (scoring self)) \<sigma> of
       (Inr (cv_score, logloss, execution_time), \<sigma>1) \<Rightarrow>
         (Inr (cv_score, logloss, execution_time), logger_debug Successful_trial \<sigma>1)
     | (Inl e, \<sigma>1) \<Rightarrow>
         if handle_cv_failure self then
           (case call (train_test_split env X_train y_train 0.20) \<sigma>1 of
              (Inl e1, \<sigma>2) \<Rightarrow> (Inl e1, \<sigma>2)
            | (Inr (X_train_part, X_validation, y_train_part, y_validation), \<sigma>2) \<Rightarrow>
           (case call (time_time env) \<sigma>2 of (start, \<sigma>3) \<Rightarrow>
           (case call (op_fit env trainable X_train_part y_train_part) \<sigma>3 of
              (Inl e2, \<sigma>4) \<Rightarrow> (Inl e2, \<sigma>4)
            | (Inr trained, \<sigma>4) \<Rightarrow>
           (case call (check_scoring env trainable (scoring self)) \<sigma>4 of
              (Inl e3, \<sigma>5) \<Rightarrow> (Inl e3, \<sigma>5)
            | (Inr scorer, \<sigma>5) \<Rightarrow>
           (case call (scorer trained X_validation y_validation) \<sigma>5 of
              (Inl e4, \<sigma>6) \<Rightarrow> (Inl e4, \<sigma>6)
            | (Inr cv_score, \<sigma>6) \<Rightarrow>
           (case call (time_time env) \<sigma>6 of (stop, \<sigma>7) \<Rightarrow>
           (let execution_time = stop - start in
           (case call (op_predict_proba env trained X_validation) \<sigma>7 of
              (Inl e5, \<sigma>8) \<Rightarrow> (Inl e5, \<sigma>8)
            | (Inr y_pred_proba, \<sigma>8) \<Rightarrow>
           (case call (log_loss env y_validation y_pred_proba) \<sigma>8 of
              (Inr logloss, \<sigma>9) \<Rightarrow> (Inr (cv_score, logloss, execution_time), \<sigma>9)
            | (Inl e6, \<sigma>9) \<Rightarrow>
                (Inr (cv_score, 0, execution_time),
                 logger_debug Log_loss_cannot_be_computed \<sigma>9))))))))))
         else
           (case call (to_json env trainable) \<sigma>1 of
              (Inl e7, \<sigma>2) \<Rightarrow> (Inl e7, \<sigma>2)
            | (Inr json, \<sigma>2) \<Rightarrow> (Inl e, logger_debug (Error_with_pipeline e json) \<sigma>2)))"

text \<open>The nested function \<^verbatim>\<open>f\<close>, lines 150 to 162: the objective handed to the
  optimizer. It closes over \<^verbatim>\<open>self\<close>, \<^verbatim>\<open>X_train\<close> and \<^verbatim>\<open>y_train\<close>; its one parameter is
  the trainable. The dictionary is built in full and only its entry \<^verbatim>\<open>'loss'\<close> is
  returned.\<close>

definition f where
  "f env self X_train y_train trainable \<sigma> =
    (case smac_train_test env self trainable X_train y_train \<sigma> of
       (Inr (score, logloss, execution_time), \<sigma>1) \<Rightarrow>
         let return_dict = [''loss'' \<mapsto> best_score self - score,
                            ''time'' \<mapsto> execution_time,
                            ''log_loss'' \<mapsto> logloss] in
         (case return_dict ''loss'' of
            None \<Rightarrow> (Inl (Exn KeyError ''loss''), \<sigma>1)
          | Some loss \<Rightarrow> (Inr loss, \<sigma>1))
     | (Inl e, \<sigma>1) \<Rightarrow> (Inl e, logger_warning (Exception_caught e) \<sigma>1))"

text \<open>The body of the \<^verbatim>\<open>try\<close> statement, lines 165 to 172. It yields the exception
  that left it, if any, with the instance and the world as they are at that point.\<close>

definition fit_try where
  "fit_try env self X_train y_train \<sigma> =
    (let tae_runner = lale_op_smac_tae env (estimator self) (f env self X_train y_train) in
     case call (orig_SMAC env (scenario self) (RandomState 42) tae_runner) \<sigma> of
       (Inl e, \<sigma>1) \<Rightarrow> (Some e, self, \<sigma>1)
     | (Inr smac, \<sigma>1) \<Rightarrow>
     (case optimize env smac \<sigma>1 of
       (Inl e, \<sigma>2) \<Rightarrow> (Some e, self, \<sigma>2)
     | (Inr incumbent, \<sigma>2) \<Rightarrow>
     (case call (get_runhistory env smac) \<sigma>2 of
       (Inl e, \<sigma>3) \<Rightarrow> (Some e, self, \<sigma>3)
     | (Inr rh, \<sigma>3) \<Rightarrow>
     (let self1 = self\<lparr>trials := Some rh\<rparr> in
     (case call (lale_trainable_op_from_config env (estimator self1) incumbent) \<sigma>3 of
       (Inl e, \<sigma>4) \<Rightarrow> (Some e, self1, \<sigma>4)
     | (Inr trainable, \<sigma>4) \<Rightarrow>
     (case call (op_fit env trainable X_train y_train) \<sigma>4 of
       (Inl e, \<sigma>5) \<Rightarrow> (Some e, self1, \<sigma>5)
     | (Inr trained, \<sigma>5) \<Rightarrow>
         (None, self1\<lparr>best_estimator := Present (Some trained)\<rparr>, \<sigma>5)))))))"

text \<open>The two handlers, lines 173 to 177: the first matches the optimizer's
  BudgetExhaustedException, the second (\<^verbatim>\<open>except BaseException\<close>) everything else.\<close>

definition fit_except where
  "fit_except e self \<sigma> =
    (if class_of e = BudgetExhaustedException
     then (self, logger_warning Optimization_time_exceeded \<sigma>)
     else (self\<lparr>best_estimator := Present None\<rparr>,
           logger_warning (Error_during_optimization e) \<sigma>))"

text \<open>\<^verbatim>\<open>SMACImpl.fit\<close>, lines 123 to 179. Line 124 is outside the \<^verbatim>\<open>try\<close>.\<close>

definition fit where
  "fit env self X_train y_train \<sigma> =
    (case call (check_cv env (cv self) y_train True) \<sigma> of
       (Inl e, \<sigma>1) \<Rightarrow> (Inl e, \<sigma>1)
     | (Inr cv', \<sigma>1) \<Rightarrow>
         (case fit_try env (self\<lparr>cv := cv'\<rparr>) X_train y_train \<sigma>1 of
            (None, self2, \<sigma>2) \<Rightarrow> (Inr self2, \<sigma>2)
          | (Some e, self2, \<sigma>2) \<Rightarrow>
              (case fit_except e self2 \<sigma>2 of (self3, \<sigma>3) \<Rightarrow> (Inr self3, \<sigma>3))))"

section \<open>A small instance of the collaborators\<close>

text \<open>
  Stand-ins for the libraries, on which the theorems below are evaluated at concrete
  inputs. Data sets and labels are lists of numbers, a configuration and the trainable
  built from it are a number, a trained operator is the configuration with the data it
  was fit on, and the estimator is the list of its configurations. The ambient state
  holds the state \<open>rng\<close> of the global random generator, the clock \<open>now\<close>, the run
  history \<open>runs\<close> of the optimizer object and the warning filters. Cross-validation
  fails when there are fewer samples than folds; configuration 13 cannot be fit;
  operators of configuration 7 have no \<^verbatim>\<open>predict_proba\<close>; configuration 21 cannot be
  serialized. The split shuffles with the
  global generator, which is what \<^verbatim>\<open>train_test_split\<close> does when it is given no
  \<^verbatim>\<open>random_state\<close>. The optimizer evaluates the configurations in order, records a
  crashed trial at the maximal cost and returns the cheapest as incumbent.
\<close>

record sim =
  rng :: nat
  now :: real
  runs :: "(nat \<times> real) list"
  filters :: "string list"

type_synonym sim_world = "(nat \<times> nat list, sim) world"

fun sim_run_trials ::
  "(nat \<Rightarrow> sim_world \<Rightarrow> (exn + real) \<times> sim_world) \<Rightarrow> nat list \<Rightarrow> sim_world \<Rightarrow> sim_world" where
  "sim_run_trials tae [] \<sigma> = \<sigma>"
| "sim_run_trials tae (c # configs) \<sigma> =
     (case tae c \<sigma> of (r, \<sigma>1) \<Rightarrow>
        sim_run_trials tae configs
          (\<sigma>1\<lparr>ambient := (ambient \<sigma>1)\<lparr>runs := runs (ambient \<sigma>1) @
             [(c, case r of Inr cost \<Rightarrow> cost | Inl e \<Rightarrow> 2147483647)]\<rparr>\<rparr>))"

fun sim_best :: "nat \<times> real \<Rightarrow> (nat \<times> real) list \<Rightarrow> nat \<times> real" where
  "sim_best b [] = b"
| "sim_best b (r # rs) = sim_best (if snd r < snd b then r else b) rs"

definition sim_scorer :: "nat \<times> nat list \<Rightarrow> nat list \<Rightarrow> nat list \<Rightarrow> sim \<Rightarrow> (exn + real) \<times> sim" where
  "sim_scorer trained X y w =
     (if X = [] then (Inl (Exn ValueError ''empty validation set''), w)
      else (Inr (real (sum_list X + fst trained) / 100), w))"

definition sim_env ::
  "(sim, nat list, nat list, nat list, nat, nat \<times> nat list, nat, (nat \<times> real) list, nat, string,
    real list, nat list, nat \<Rightarrow> sim_world \<Rightarrow> (exn + real) \<times> sim_world,
    nat list scenario_options \<times> (nat \<Rightarrow> sim_world \<Rightarrow> (exn + real) \<times> sim_world),
    nat \<times> nat list, nat list scenario_options, nat list) env" where
  "sim_env =
    \<lparr>LogisticRegression = [0],
     get_smac_space = (\<lambda>e grids w. (Inr e, w)),
     Scenario = (\<lambda>options w. (Inr options, w)),
     check_cv = (\<lambda>k y classifier w.
        (if k < 2 then Inl (Exn ValueError ''need at least 2 folds'') else Inr k, w)),
     cross_val_score_track_trials = (\<lambda>trainable X y k scoring w.
        (if length X < k \<or> trainable = 13 then Inl (Exn ValueError ''fold failed'')
         else Inr (real trainable / 10, 1 / 2, 3), w\<lparr>now := now w + 3\<rparr>)),
     train_test_split = (\<lambda>X y test_size w.
        (if X = [] then Inl (Exn ValueError ''empty'')
         else Inr (drop (length X div 5) (rotate (rng w) X), take (length X div 5) (rotate (rng w) X),
                   drop (length y div 5) (rotate (rng w) y), take (length y div 5) (rotate (rng w) y)),
         w\<lparr>rng := Suc (rng w)\<rparr>)),
     time_time = (\<lambda>w. (now w, w)),
     op_fit = (\<lambda>trainable X y w.
        (if trainable = 13 then Inl (Exn ValueError ''invalid hyperparameters'')
         else Inr (trainable, X), w\<lparr>now := now w + 1\<rparr>)),
     check_scoring = (\<lambda>trainable scoring w.
        (if scoring = ''accuracy'' then Inr sim_scorer
         else Inl (Exn ValueError ''not a valid scoring value''), w)),
     op_predict_proba = (\<lambda>trained X w.
        (if fst trained = 7 then Inl (Exn AttributeError ''predict_proba'')
         else Inr (map (\<lambda>x. 1 / 2) X), w)),
     log_loss = (\<lambda>y proba w.
        (if length y = length proba \<and> 1 < length (remdups y) then Inr 1
         else Inl (Exn ValueError ''y_true contains only one label''), w)),
     to_json = (\<lambda>trainable w.
        (if trainable = 21 then Inl (Exn OtherError ''not serializable'')
         else Inr (if trainable = 13 then ''config 13'' else ''config''), w)),
     lale_op_smac_tae = (\<lambda>e objective. objective),
     orig_SMAC = (\<lambda>scen seed tae w. (Inr (scen, tae), w\<lparr>runs := []\<rparr>)),
     optimize = (\<lambda>smac \<sigma>.
        if wallclock_limit (fst smac) = Some 0
        then (Inl (Exn BudgetExhaustedException ''budget''), \<sigma>)
        else (case sim_run_trials (snd smac)
                     (take (nat (runcount_limit (fst smac))) (cs (fst smac))) \<sigma> of \<sigma>1 \<Rightarrow>
                (case runs (ambient \<sigma>1) of
                   [] \<Rightarrow> (Inl (Exn ValueError ''no configuration''), \<sigma>1)
                 | r # rs \<Rightarrow> (Inr (fst (sim_best r rs)), \<sigma>1)))),
     get_runhistory = (\<lambda>smac w. (Inr (runs w), w)),
     lale_trainable_op_from_config = (\<lambda>e config w. (Inr config, w)),
     op_predict = (\<lambda>trained X w.
        (if X = [] then Inl (Exn ValueError ''empty input'')
         else Inr (map (\<lambda>x. x + fst trained) X), w)),
     filterwarnings = (\<lambda>action w. w\<lparr>filters := action # filters w\<rparr>),
     make_sklearn_compat = (\<lambda>result.
        case result of None \<Rightarrow> Inl (Exn AttributeError ''NoneType'') | Some t \<Rightarrow> Inr t)\<rparr>"

definition sim_world0 :: sim_world where
  "sim_world0 = \<lparr>logged = [], ambient = \<lparr>rng = 0, now = 0, runs = [], filters = []\<rparr>\<rparr>"

definition sim_self ::
  "(nat list, nat list, string, nat, nat list scenario_options, (nat \<times> real) list,
    nat \<times> nat list) SMACImpl" where
  "sim_self =
    \<lparr>max_evals = 50, estimator = [3, 1], search_space = [3, 1], scoring = ''accuracy'',
     best_score = 1, handle_cv_failure = False, cv = 2, max_opt_time = None,
     scenario = \<lparr>run_obj = ''quality'', runcount_limit = 50, cs = [3, 1],
                 deterministic = ''true'', abort_on_first_run_crash = False,
                 wallclock_limit = None\<rparr>,
     trials = None, best_estimator = Missing\<rparr>"

text \<open>
  Two instances beside \<open>sim_self\<close>: one whose time budget is zero, so that the optimizer
  signals exhaustion before any trial, and one with more folds than samples that
  tolerates the failure of cross-validation.
  \<open>sim_env_interrupted\<close> is \<open>sim_env\<close> with an optimizer that is interrupted once its
  trials have run.
\<close>

definition sim_self_no_time where
  "sim_self_no_time =
     sim_self\<lparr>max_opt_time := Some 0,
              scenario := (scenario sim_self)\<lparr>wallclock_limit := Some 0\<rparr>\<rparr>"

definition sim_self_tolerant where
  "sim_self_tolerant =
     sim_self\<lparr>estimator := [3], search_space := [3], handle_cv_failure := True, cv := 10,
              scenario := (scenario sim_self)\<lparr>cs := [3]\<rparr>\<rparr>"

definition sim_env_interrupted where
  "sim_env_interrupted =
     sim_env\<lparr>optimize := \<lambda>smac \<sigma>.
        case optimize sim_env smac \<sigma> of
          (r, \<sigma>1) \<Rightarrow> (Inl (Exn OtherError ''KeyboardInterrupt''), \<sigma>1)\<rparr>"


lemmas sim_defs = sim_env_def sim_self_def sim_world0_def sim_scorer_def

section \<open>Retrieving the pipeline\<close>

text \<open>
  C10: for every pipeline name that is not \<^verbatim>\<open>None\<close>, \<^verbatim>\<open>get_pipeline\<close> raises
  NotImplementedError whatever the instance holds; and when no estimator is stored (the
  attribute is missing or holds \<^verbatim>\<open>None\<close>), \<^verbatim>\<open>get_pipeline(None, astype)\<close> returns \<^verbatim>\<open>None\<close>
  for every \<^verbatim>\<open>astype\<close>, the scikit-learn wrapper not being called.
\<close>

theorem get_pipeline_by_name_or_absent:
  "get_pipeline env self (Some (name :: 'n)) astype =
     Inl (Exn NotImplementedError ''Cannot get pipeline by name yet.'')
   \<and> (best_estimator self = Missing \<or> best_estimator self = Present None \<longrightarrow>
        get_pipeline env self (None :: 'n option) astype = Inr None)"
  by (auto simp: get_pipeline_def)

text \<open>C10 at a fresh instance, asked for the scikit-learn form and asked by name.\<close>

theorem get_pipeline_by_name_or_absent_witness:
  "(best_estimator sim_self = Missing \<or> best_estimator sim_self = Present None)
   \<and> get_pipeline sim_env sim_self (None :: string option) ''sklearn'' = Inr None
   \<and> get_pipeline sim_env sim_self (Some ''best'') ''lale'' =
       Inl (Exn NotImplementedError ''Cannot get pipeline by name yet.'')"
  using get_pipeline_by_name_or_absent [of sim_env sim_self "''best''" "''lale''"]
    get_pipeline_by_name_or_absent [of sim_env sim_self "''best''" "''sklearn''"]
  by (simp add: sim_self_def)

section \<open>Prediction\<close>

text \<open>
  C1, as stated, fails on both of its cases: with \<^verbatim>\<open>_best_estimator\<close> set to \<^verbatim>\<open>None\<close> (what
  the second handler of \<^verbatim>\<open>fit\<close> leaves), \<^verbatim>\<open>predict\<close> raises AttributeError and logs nothing;
  and when the stored estimator raises anything that is not a ValueError, \<^verbatim>\<open>predict\<close>
  raises it and logs nothing.
\<close>

theorem predict_absent_counterexample:
  "best_estimator (sim_self\<lparr>best_estimator := Present None\<rparr>) = Present None
   \<and> predict sim_env (sim_self\<lparr>best_estimator := Present None\<rparr>) [1, 2] sim_world0 =
       (Inl (Exn AttributeError ''predict''),
        \<lparr>logged = [], ambient = \<lparr>rng = 0, now = 0, runs = [], filters = [''ignore'']\<rparr>\<rparr>)
   \<and> predict
        (sim_env\<lparr>op_predict := \<lambda>trained X w. (Inl (Exn OtherError ''out of memory''), w)\<rparr>)
        (sim_self\<lparr>best_estimator := Present (Some (3, [1, 2]))\<rparr>) [1, 2] sim_world0 =
       (Inl (Exn OtherError ''out of memory''),
        \<lparr>logged = [], ambient = \<lparr>rng = 0, now = 0, runs = [], filters = [''ignore'']\<rparr>\<rparr>)"
  by (simp add: predict_def call_def sim_defs)

text \<open>
  C1, amended: for every input \<^verbatim>\<open>X_eval\<close>, if an estimator is stored and its \<^verbatim>\<open>predict\<close>
  raises a ValueError, then \<^verbatim>\<open>predict(X_eval)\<close> returns \<^verbatim>\<open>None\<close> and logs one warning
  instead of raising.
\<close>

theorem predict_ValueError_returns_None:
  assumes "best_estimator self = Present (Some trained)"
    and "op_predict env trained X_eval (filterwarnings env ''ignore'' (ambient \<sigma>)) = (Inl e, w')"
    and "class_of e = ValueError"
  shows "predict env self X_eval \<sigma> =
           (Inr None,
            \<sigma>\<lparr>logged := logged \<sigma> @ [(WARNING, ValueError_in_predicting (Some trained) e)],
              ambient := w'\<rparr>)"
  using assms by (simp add: predict_def call_def logger_warning_def)

text \<open>C1, amended, at a stored operator that rejects an empty input.\<close>

theorem predict_ValueError_returns_None_witness:
  "best_estimator (sim_self\<lparr>best_estimator := Present (Some (3, [1, 2]))\<rparr>) =
     Present (Some (3, [1, 2]))
   \<and> op_predict sim_env (3, [1, 2]) []
        (filterwarnings sim_env ''ignore'' (ambient sim_world0)) =
        (Inl (Exn ValueError ''empty input''),
         \<lparr>rng = 0, now = 0, runs = [], filters = [''ignore'']\<rparr>)
   \<and> class_of (Exn ValueError ''empty input'') = ValueError
   \<and> predict sim_env (sim_self\<lparr>best_estimator := Present (Some (3, [1, 2]))\<rparr>) [] sim_world0 =
        (Inr None,
         \<lparr>logged = [(WARNING, ValueError_in_predicting (Some (3, [1, 2]))
                                (Exn ValueError ''empty input''))],
          ambient = \<lparr>rng = 0, now = 0, runs = [], filters = [''ignore'']\<rparr>\<rparr>)"
  using predict_ValueError_returns_None
    [of "sim_self\<lparr>best_estimator := Present (Some (3, [1, 2]))\<rparr>" "(3, [1, 2])" sim_env "[]"
        sim_world0 "Exn ValueError ''empty input''"
        "\<lparr>rng = 0, now = 0, runs = [], filters = [''ignore'']\<rparr>"]
  by (simp add: sim_defs)

section \<open>The objective evaluator\<close>

text \<open>
  C5, as stated, fails: line 146 serializes the pipeline before it logs and before it
  re-raises. When \<^verbatim>\<open>to_json()\<close> raises, it is that exception, not the one of
  cross-validation, that leaves \<^verbatim>\<open>f\<close>, and no record of the log holds a serialization.
\<close>

theorem serialization_failure_counterexample:
  "cross_val_score_track_trials sim_env 21 [1, 2, 3] [0, 1, 0] (cv (sim_self\<lparr>cv := 5\<rparr>))
     (scoring (sim_self\<lparr>cv := 5\<rparr>)) (ambient sim_world0) =
     (Inl (Exn ValueError ''fold failed''), \<lparr>rng = 0, now = 3, runs = [], filters = []\<rparr>)
   \<and> handle_cv_failure (sim_self\<lparr>cv := 5\<rparr>) = False
   \<and> f sim_env (sim_self\<lparr>cv := 5\<rparr>) [1, 2, 3] [0, 1, 0] 21 sim_world0 =
       (Inl (Exn OtherError ''not serializable''),
        \<lparr>logged = [(WARNING, Exception_caught (Exn OtherError ''not serializable''))],
         ambient = \<lparr>rng = 0, now = 3, runs = [], filters = []\<rparr>\<rparr>)"
  by (simp add: f_def smac_train_test_def call_def logger_warning_def logger_debug_def sim_defs)

text \<open>
  C5, amended: for every trial in which cross-validation raises, \<^verbatim>\<open>handle_cv_failure\<close> is
  \<^verbatim>\<open>False\<close> and the serialization \<^verbatim>\<open>to_json()\<close> of the pipeline returns, the objective \<^verbatim>\<open>f\<close>
  raises the exception of cross-validation, after a debug record that holds the
  exception and the serialization, and after the warning of \<^verbatim>\<open>f\<close> itself. (That the
  optimizer then marks the trial as failed is the optimizer's part.)
\<close>

theorem cv_failure_propagates:
  assumes "cross_val_score_track_trials env trainable X_train y_train (cv self) (scoring self)
             (ambient \<sigma>) = (Inl e, w1)"
    and "\<not> handle_cv_failure self"
    and "to_json env trainable w1 = (Inr json, w2)"
  shows "f env self X_train y_train trainable \<sigma> =
           (Inl e,
            \<sigma>\<lparr>logged := logged \<sigma> @
                 [(DEBUG, Error_with_pipeline e json), (WARNING, Exception_caught e)],
              ambient := w2\<rparr>)"
  using assms
  by (simp add: f_def smac_train_test_def call_def logger_warning_def logger_debug_def)

text \<open>C5, amended, at three samples and five folds.\<close>

theorem cv_failure_propagates_witness:
  "cross_val_score_track_trials sim_env 3 [1, 2, 3] [0, 1, 0] (cv (sim_self\<lparr>cv := 5\<rparr>))
     (scoring (sim_self\<lparr>cv := 5\<rparr>)) (ambient sim_world0) =
     (Inl (Exn ValueError ''fold failed''), \<lparr>rng = 0, now = 3, runs = [], filters = []\<rparr>)
   \<and> handle_cv_failure (sim_self\<lparr>cv := 5\<rparr>) = False
   \<and> to_json sim_env 3 \<lparr>rng = 0, now = 3, runs = [], filters = []\<rparr> =
       (Inr ''config'', \<lparr>rng = 0, now = 3, runs = [], filters = []\<rparr>)
   \<and> f sim_env (sim_self\<lparr>cv := 5\<rparr>) [1, 2, 3] [0, 1, 0] 3 sim_world0 =
       (Inl (Exn ValueError ''fold failed''),
        \<lparr>logged = [(DEBUG, Error_with_pipeline (Exn ValueError ''fold failed'') ''config''),
                   (WARNING, Exception_caught (Exn ValueError ''fold failed''))],
         ambient = \<lparr>rng = 0, now = 3, runs = [], filters = []\<rparr>\<rparr>)"
  using cv_failure_propagates
    [where env = sim_env and trainable = 3 and X_train = "[1, 2, 3]" and y_train = "[0, 1, 0]"
       and self = "sim_self\<lparr>cv := 5\<rparr>" and \<sigma> = sim_world0
       and e = "Exn ValueError ''fold failed''"
       and ?w1.0 = "\<lparr>rng = 0, now = 3, runs = [], filters = []\<rparr>"
       and json = "''config''" and ?w2.0 = "\<lparr>rng = 0, now = 3, runs = [], filters = []\<rparr>"]
  by (simp add: sim_defs)

text \<open>
  C8, as stated, fails: what \<^verbatim>\<open>f\<close> returns is the loss alone. Two trials with the same
  score, one reporting log loss \<open>1/2\<close> and three seconds, the other log loss \<open>0\<close> and
  sixty seconds, return the same value.
\<close>

theorem objective_returns_loss_only_counterexample:
  "fst (f (sim_env\<lparr>cross_val_score_track_trials := \<lambda>trainable X y k scoring w. (Inr (3 / 4, 1 / 2, 3), w)\<rparr>)
          sim_self [1, 2, 3] [0, 1, 0] 3 sim_world0) = Inr (1 / 4)
   \<and> fst (f (sim_env\<lparr>cross_val_score_track_trials := \<lambda>trainable X y k scoring w. (Inr (3 / 4, 0, 60), w)\<rparr>)
          sim_self [1, 2, 3] [0, 1, 0] 3 sim_world0) = Inr (1 / 4)"
  by (simp add: f_def smac_train_test_def call_def logger_debug_def sim_defs)

text \<open>
  C8, amended: for every trial whose cross-validated scoring succeeds,
  \<^verbatim>\<open>smac_train_test\<close> returns the score, the log loss and the execution time as
  cross-validation reported them, and the objective \<^verbatim>\<open>f\<close> returns only the loss, equal to
  \<^verbatim>\<open>best_score\<close> minus the observed score (so a score equal to \<^verbatim>\<open>best_score\<close> yields loss
  zero); the time and the log loss go into a local dictionary that is not returned.
\<close>

theorem objective_loss:
  assumes "cross_val_score_track_trials env trainable X_train y_train (cv self) (scoring self)
             (ambient \<sigma>) = (Inr (score, logloss, execution_time), w1)"
  shows "smac_train_test env self trainable X_train y_train \<sigma> =
           (Inr (score, logloss, execution_time),
            \<sigma>\<lparr>logged := logged \<sigma> @ [(DEBUG, Successful_trial)], ambient := w1\<rparr>)
         \<and> f env self X_train y_train trainable \<sigma> =
           (Inr (best_score self - score),
            \<sigma>\<lparr>logged := logged \<sigma> @ [(DEBUG, Successful_trial)], ambient := w1\<rparr>)
         \<and> (score = best_score self \<longrightarrow>
              fst (f env self X_train y_train trainable \<sigma>) = Inr 0)"
  using assms
  by (simp add: f_def smac_train_test_def call_def logger_debug_def)

text \<open>C8, amended, at a trial whose score is the best score.\<close>

theorem objective_loss_witness:
  "cross_val_score_track_trials sim_env 10 [1, 2, 3] [0, 1, 0] (cv sim_self) (scoring sim_self)
     (ambient sim_world0) = (Inr (1, 1 / 2, 3), \<lparr>rng = 0, now = 3, runs = [], filters = []\<rparr>)
   \<and> 1 = best_score sim_self
   \<and> f sim_env sim_self [1, 2, 3] [0, 1, 0] 10 sim_world0 =
       (Inr 0, \<lparr>logged = [(DEBUG, Successful_trial)],
                 ambient = \<lparr>rng = 0, now = 3, runs = [], filters = []\<rparr>\<rparr>)"
  using objective_loss
    [of sim_env 10 "[1, 2, 3]" "[0, 1, 0]" sim_self sim_world0 1 "1 / 2" 3
        "\<lparr>rng = 0, now = 3, runs = [], filters = []\<rparr>"]
  by (simp add: sim_defs)




section \<open>Fitting\<close>

lemmas fit_defs = fit_def fit_try_def fit_except_def f_def smac_train_test_def call_def
  logger_debug_def logger_warning_def Let_def

lemmas sim_self_defs = sim_self_no_time_def sim_self_tolerant_def

text \<open>\<open>sim_self\<close> is what \<^verbatim>\<open>__init__\<close> builds: no trials, and no attribute
  \<^verbatim>\<open>_best_estimator\<close>.\<close>

lemma sim_self_fresh:
  "init sim_env (Some [3, 1]) 50 2 False ''accuracy'' 1 None None (ambient sim_world0) =
     (Inr sim_self, ambient sim_world0)"
  by (simp add: init_def sim_defs Let_def)

text \<open>An exception leaves the \<^verbatim>\<open>try\<close> body before line 172 assigns the estimator.\<close>

lemma fit_try_raised_estimator:
  "fit_try env self X_train y_train \<sigma> = (Some e, self2, \<sigma>2) \<Longrightarrow>
     best_estimator self2 = best_estimator self"
  by (auto simp: fit_try_def Let_def split: prod.splits sum.splits)

lemma fit_after_check_cv:
  "check_cv env (cv self) y_train True (ambient \<sigma>) = (Inr cv', w1) \<Longrightarrow>
   fit env self X_train y_train \<sigma> =
     (case fit_try env (self\<lparr>cv := cv'\<rparr>) X_train y_train (\<sigma>\<lparr>ambient := w1\<rparr>) of
        (None, self2, \<sigma>2) \<Rightarrow> (Inr self2, \<sigma>2)
      | (Some e, self2, \<sigma>2) \<Rightarrow>
          (case fit_except e self2 \<sigma>2 of (self3, \<sigma>3) \<Rightarrow> (Inr self3, \<sigma>3)))"
  by (simp add: fit_def call_def)

text \<open>
  C2: for every training input, when the search, the call \<^verbatim>\<open>smac.optimize()\<close> of line 167,
  raises any exception, \<^verbatim>\<open>fit\<close> does not raise it: it returns the instance, and a warning
  is the last record of the log. When the exception is a failure (anything but the
  optimizer's budget signal, which has a handler of its own), the instance returned has
  \<^verbatim>\<open>_best_estimator\<close> set to \<^verbatim>\<open>None\<close> and \<^verbatim>\<open>get_pipeline()\<close> returns \<^verbatim>\<open>None\<close>.
\<close>

theorem fit_catches_search_failure:
  assumes "check_cv env (cv self) y_train True (ambient \<sigma>) = (Inr cv', w1)"
    and "orig_SMAC env (scenario self) (RandomState 42)
           (lale_op_smac_tae env (estimator self) (f env (self\<lparr>cv := cv'\<rparr>) X_train y_train))
           w1 = (Inr smac, w2)"
    and "optimize env smac (\<sigma>\<lparr>ambient := w2\<rparr>) = (Inl e, \<sigma>3)"
  shows "fit env self X_train y_train \<sigma> =
           (Inr (if class_of e = BudgetExhaustedException then self\<lparr>cv := cv'\<rparr>
                 else self\<lparr>cv := cv', best_estimator := Present None\<rparr>),
            \<sigma>3\<lparr>logged := logged \<sigma>3 @
                  [(WARNING, if class_of e = BudgetExhaustedException
                             then Optimization_time_exceeded
                             else Error_during_optimization e)]\<rparr>)
         \<and> (class_of e \<noteq> BudgetExhaustedException \<longrightarrow>
              get_pipeline env (self\<lparr>cv := cv', best_estimator := Present None\<rparr>)
                (None :: 'n option) astype = Inr None)"
  using assms
  by (simp add: fit_def fit_try_def fit_except_def call_def Let_def logger_warning_def
        get_pipeline_def)

text \<open>C2 at an optimizer that is interrupted in \<^verbatim>\<open>optimize()\<close> after two trials.\<close>

theorem fit_catches_search_failure_witness:
  "check_cv sim_env_interrupted (cv sim_self) [0, 1, 0] True (ambient sim_world0) =
     (Inr 2, ambient sim_world0)
   \<and> orig_SMAC sim_env_interrupted (scenario sim_self) (RandomState 42)
        (lale_op_smac_tae sim_env_interrupted (estimator sim_self)
           (f sim_env_interrupted (sim_self\<lparr>cv := 2\<rparr>) [1, 2, 3] [0, 1, 0]))
        (ambient sim_world0) =
       (Inr (scenario sim_self, f sim_env_interrupted (sim_self\<lparr>cv := 2\<rparr>) [1, 2, 3] [0, 1, 0]),
        ambient sim_world0)
   \<and> optimize sim_env_interrupted
        (scenario sim_self, f sim_env_interrupted (sim_self\<lparr>cv := 2\<rparr>) [1, 2, 3] [0, 1, 0])
        (sim_world0\<lparr>ambient := ambient sim_world0\<rparr>) =
       (Inl (Exn OtherError ''KeyboardInterrupt''),
        \<lparr>logged = [(DEBUG, Successful_trial), (DEBUG, Successful_trial)],
         ambient = \<lparr>rng = 0, now = 6, runs = [(3, 7 / 10), (1, 9 / 10)], filters = []\<rparr>\<rparr>)
   \<and> class_of (Exn OtherError ''KeyboardInterrupt'') \<noteq> BudgetExhaustedException
   \<and> fit sim_env_interrupted sim_self [1, 2, 3] [0, 1, 0] sim_world0 =
       (Inr (sim_self\<lparr>cv := 2, best_estimator := Present None\<rparr>),
        \<lparr>logged = [(DEBUG, Successful_trial), (DEBUG, Successful_trial),
                   (WARNING, Error_during_optimization (Exn OtherError ''KeyboardInterrupt''))],
         ambient = \<lparr>rng = 0, now = 6, runs = [(3, 7 / 10), (1, 9 / 10)], filters = []\<rparr>\<rparr>)
   \<and> get_pipeline sim_env_interrupted (sim_self\<lparr>cv := 2, best_estimator := Present None\<rparr>)
        (None :: string option) ''lale'' = Inr None"
proof -
  have check: "check_cv sim_env_interrupted (cv sim_self) [0, 1, 0] True (ambient sim_world0) =
     (Inr 2, ambient sim_world0)"
    by (simp add: sim_defs sim_env_interrupted_def)
  have build: "orig_SMAC sim_env_interrupted (scenario sim_self) (RandomState 42)
        (lale_op_smac_tae sim_env_interrupted (estimator sim_self)
           (f sim_env_interrupted (sim_self\<lparr>cv := 2\<rparr>) [1, 2, 3] [0, 1, 0]))
        (ambient sim_world0) =
       (Inr (scenario sim_self, f sim_env_interrupted (sim_self\<lparr>cv := 2\<rparr>) [1, 2, 3] [0, 1, 0]),
        ambient sim_world0)"
    by (simp add: sim_defs sim_env_interrupted_def)
  have search: "optimize sim_env_interrupted
        (scenario sim_self, f sim_env_interrupted (sim_self\<lparr>cv := 2\<rparr>) [1, 2, 3] [0, 1, 0])
        (sim_world0\<lparr>ambient := ambient sim_world0\<rparr>) =
       (Inl (Exn OtherError ''KeyboardInterrupt''),
        \<lparr>logged = [(DEBUG, Successful_trial), (DEBUG, Successful_trial)],
         ambient = \<lparr>rng = 0, now = 6, runs = [(3, 7 / 10), (1, 9 / 10)], filters = []\<rparr>\<rparr>)"
    by (simp add: f_def smac_train_test_def call_def logger_debug_def sim_defs
          sim_env_interrupted_def)
  show ?thesis
    using check build search
      fit_catches_search_failure [OF check build search, where astype = "''lale''" and 'n = string]
    by simp
qed

text \<open>
  C3, as stated, fails: on a fresh instance whose optimizer signals budget exhaustion
  before any trial, \<^verbatim>\<open>fit\<close> returns and \<^verbatim>\<open>get_pipeline()\<close> returns \<^verbatim>\<open>None\<close>, but \<^verbatim>\<open>predict\<close>
  raises AttributeError: the attribute \<^verbatim>\<open>_best_estimator\<close> was never assigned.
\<close>

theorem predict_after_budget_exhausted_counterexample:
  "fit sim_env sim_self_no_time [1, 2, 3] [0, 1, 0] sim_world0 =
     (Inr sim_self_no_time, sim_world0\<lparr>logged := [(WARNING, Optimization_time_exceeded)]\<rparr>)
   \<and> get_pipeline sim_env sim_self_no_time (None :: string option) ''lale'' = Inr None
   \<and> predict sim_env sim_self_no_time [1, 2]
        (sim_world0\<lparr>logged := [(WARNING, Optimization_time_exceeded)]\<rparr>) =
       (Inl (Exn AttributeError ''_best_estimator''),
        \<lparr>logged = [(WARNING, Optimization_time_exceeded)],
         ambient = \<lparr>rng = 0, now = 0, runs = [], filters = [''ignore'']\<rparr>\<rparr>)"
  by (simp add: fit_defs predict_def get_pipeline_def sim_defs sim_self_defs)

text \<open>
  C3, amended: if the optimizer signals budget exhaustion, \<^verbatim>\<open>fit\<close> terminates without
  raising, logs a warning and leaves the attribute of the Best Estimator as it was
  before the call; when no estimator was stored before, a subsequent \<^verbatim>\<open>get_pipeline()\<close>
  returns \<^verbatim>\<open>None\<close>.
\<close>

theorem fit_budget_exhausted:
  assumes "check_cv env (cv self) y_train True (ambient \<sigma>) = (Inr cv', w1)"
    and "fit_try env (self\<lparr>cv := cv'\<rparr>) X_train y_train (\<sigma>\<lparr>ambient := w1\<rparr>) =
           (Some e, self2, \<sigma>2)"
    and "class_of e = BudgetExhaustedException"
  shows "fit env self X_train y_train \<sigma> =
           (Inr self2, \<sigma>2\<lparr>logged := logged \<sigma>2 @ [(WARNING, Optimization_time_exceeded)]\<rparr>)
         \<and> best_estimator self2 = best_estimator self
         \<and> (best_estimator self = Missing \<or> best_estimator self = Present None \<longrightarrow>
              get_pipeline env self2 (None :: 'n option) astype = Inr None)"
proof -
  have "best_estimator self2 = best_estimator (self\<lparr>cv := cv'\<rparr>)"
    using assms(2) by (rule fit_try_raised_estimator)
  then have same: "best_estimator self2 = best_estimator self" by simp
  have "fit env self X_train y_train \<sigma> =
          (Inr self2, \<sigma>2\<lparr>logged := logged \<sigma>2 @ [(WARNING, Optimization_time_exceeded)]\<rparr>)"
    using assms by (simp add: fit_after_check_cv fit_except_def logger_warning_def)
  moreover have "best_estimator self = Missing \<or> best_estimator self = Present None \<longrightarrow>
      get_pipeline env self2 (None :: 'n option) astype = Inr None"
    using same by (auto simp: get_pipeline_def)
  ultimately show ?thesis using same by simp
qed

text \<open>C3, amended, at the fresh instance with no time.\<close>

theorem fit_budget_exhausted_witness:
  "check_cv sim_env (cv sim_self_no_time) [0, 1, 0] True (ambient sim_world0) =
     (Inr 2, ambient sim_world0)
   \<and> fit_try sim_env (sim_self_no_time\<lparr>cv := 2\<rparr>) [1, 2, 3] [0, 1, 0]
       (sim_world0\<lparr>ambient := ambient sim_world0\<rparr>) =
       (Some (Exn BudgetExhaustedException ''budget''), sim_self_no_time, sim_world0)
   \<and> class_of (Exn BudgetExhaustedException ''budget'') = BudgetExhaustedException
   \<and> (best_estimator sim_self_no_time = Missing \<or>
       best_estimator sim_self_no_time = Present None)
   \<and> fit sim_env sim_self_no_time [1, 2, 3] [0, 1, 0] sim_world0 =
       (Inr sim_self_no_time,
        sim_world0\<lparr>logged := logged sim_world0 @ [(WARNING, Optimization_time_exceeded)]\<rparr>)
   \<and> get_pipeline sim_env sim_self_no_time (None :: string option) ''sklearn'' = Inr None"
  using fit_budget_exhausted
    [where env = sim_env and self = sim_self_no_time and y_train = "[0, 1, 0]"
       and \<sigma> = sim_world0 and cv' = 2 and ?w1.0 = "ambient sim_world0"
       and X_train = "[1, 2, 3]" and e = "Exn BudgetExhaustedException ''budget''"
       and ?self2.0 = sim_self_no_time and ?\<sigma>2.0 = sim_world0
       and astype = "''sklearn''" and 'n = string]
  by (simp add: fit_defs sim_defs sim_self_defs get_pipeline_def)




text \<open>
  C9 holds of the documentation and not of the code. The docstring of \<^verbatim>\<open>get_trials\<close>
  (lines 194 to 200) promises the run history of all the trials executed during
  \<^verbatim>\<open>fit\<close>. When the optimizer is interrupted in \<^verbatim>\<open>optimize()\<close> after its two trials, the
  search has a run history of two entries, \<^verbatim>\<open>fit\<close> returns normally, and \<^verbatim>\<open>get_trials()\<close>
  returns \<^verbatim>\<open>None\<close>: line 168 assigns \<^verbatim>\<open>self.trials\<close> only after \<^verbatim>\<open>optimize()\<close> has returned,
  and neither handler assigns it.
\<close>

theorem get_trials_after_failure:
  "fit sim_env_interrupted sim_self [1, 2, 3] [0, 1, 0] sim_world0 =
     (Inr (sim_self\<lparr>best_estimator := Present None\<rparr>),
      \<lparr>logged = [(DEBUG, Successful_trial), (DEBUG, Successful_trial),
                 (WARNING, Error_during_optimization (Exn OtherError ''KeyboardInterrupt''))],
       ambient = \<lparr>rng = 0, now = 6, runs = [(3, 7 / 10), (1, 9 / 10)], filters = []\<rparr>\<rparr>)
   \<and> get_trials (sim_self\<lparr>best_estimator := Present None\<rparr>) = None
   \<and> get_runhistory sim_env_interrupted
        (scenario sim_self, f sim_env_interrupted (sim_self\<lparr>cv := 2\<rparr>) [1, 2, 3] [0, 1, 0])
        \<lparr>rng = 0, now = 6, runs = [(3, 7 / 10), (1, 9 / 10)], filters = []\<rparr> =
       (Inr [(3, 7 / 10), (1, 9 / 10)],
        \<lparr>rng = 0, now = 6, runs = [(3, 7 / 10), (1, 9 / 10)], filters = []\<rparr>)"
  by (simp add: fit_defs get_trials_def sim_defs sim_env_interrupted_def)

text \<open>What \<^verbatim>\<open>fit\<close> does assign: the run history, once \<^verbatim>\<open>optimize()\<close> and
  \<^verbatim>\<open>get_runhistory()\<close> have returned, also if the final fit then fails.\<close>

lemma trials_assigned_after_optimize:
  assumes "check_cv env (cv self) y_train True (ambient \<sigma>) = (Inr cv', w1)"
    and "orig_SMAC env (scenario self) (RandomState 42)
           (lale_op_smac_tae env (estimator self) (f env (self\<lparr>cv := cv'\<rparr>) X_train y_train))
           w1 = (Inr smac, w2)"
    and "optimize env smac (\<sigma>\<lparr>ambient := w2\<rparr>) = (Inr incumbent, \<sigma>3)"
    and "get_runhistory env smac (ambient \<sigma>3) = (Inr rh, w4)"
  shows "\<exists>self' \<sigma>'. fit env self X_train y_train \<sigma> = (Inr self', \<sigma>')
           \<and> get_trials self' = Some rh"
  using assms
  by (auto simp: fit_def fit_try_def fit_except_def call_def Let_def get_trials_def
       split: prod.splits sum.splits option.splits)

section \<open>Randomness\<close>

text \<open>
  C6 holds of what the code sets out to do and not of the code. The scenario declares
  \<^verbatim>\<open>"deterministic": "true"\<close> (line 115) and line 165 seeds the optimizer with
  \<^verbatim>\<open>RandomState(42)\<close>, but the split of line 133 is given no \<^verbatim>\<open>random_state\<close> and draws
  from the global generator. The same instance, fit twice on the same data with the
  seed 42 handed to the optimizer both times, records the loss \<open>24/25\<close> when the global
  generator starts in state 0 and \<open>19/20\<close> when it starts in state 1 (cross-validation
  fails with ten folds and five samples, and \<^verbatim>\<open>handle_cv_failure\<close> is set).
\<close>

theorem run_history_depends_on_global_generator:
  "fit sim_env sim_self_tolerant [1, 2, 3, 4, 5] [0, 1, 0, 1, 1] sim_world0 =
     (Inr (sim_self_tolerant\<lparr>trials := Some [(3, 24 / 25)],
                             best_estimator := Present (Some (3, [1, 2, 3, 4, 5]))\<rparr>),
      \<lparr>logged = [(DEBUG, Log_loss_cannot_be_computed)],
       ambient = \<lparr>rng = 1, now = 5, runs = [(3, 24 / 25)], filters = []\<rparr>\<rparr>)
   \<and> fit sim_env sim_self_tolerant [1, 2, 3, 4, 5] [0, 1, 0, 1, 1]
        (sim_world0\<lparr>ambient := (ambient sim_world0)\<lparr>rng := 1\<rparr>\<rparr>) =
     (Inr (sim_self_tolerant\<lparr>trials := Some [(3, 19 / 20)],
                             best_estimator := Present (Some (3, [1, 2, 3, 4, 5]))\<rparr>),
      \<lparr>logged = [(DEBUG, Log_loss_cannot_be_computed)],
       ambient = \<lparr>rng = 2, now = 5, runs = [(3, 19 / 20)], filters = []\<rparr>\<rparr>)
   \<and> get_trials (sim_self_tolerant\<lparr>trials := Some [(3, 24 / 25)],
                   best_estimator := Present (Some (3, [1, 2, 3, 4, 5]))\<rparr>) \<noteq>
     get_trials (sim_self_tolerant\<lparr>trials := Some [(3, 19 / 20)],
                   best_estimator := Present (Some (3, [1, 2, 3, 4, 5]))\<rparr>)"
  by (simp add: fit_defs get_trials_def sim_defs sim_self_defs)

text \<open>The defect is confined to the fallback path: with \<^verbatim>\<open>handle_cv_failure\<close> \<^verbatim>\<open>False\<close>, the
  whole of \<^verbatim>\<open>fit\<close> (run history and estimator) is the same whatever the split does.\<close>

lemma f_without_split:
  "\<not> handle_cv_failure self \<Longrightarrow> f (env\<lparr>train_test_split := split'\<rparr>) self = f env self"
  by (rule ext)+
     (simp add: f_def smac_train_test_def Let_def call_def
           cong: prod.case_cong sum.case_cong)

lemma fit_try_without_split:
  "\<not> handle_cv_failure self \<Longrightarrow>
     fit_try (env\<lparr>train_test_split := split'\<rparr>) self X_train y_train \<sigma> =
     fit_try env self X_train y_train \<sigma>"
  by (simp add: fit_try_def f_without_split Let_def
       cong: prod.case_cong sum.case_cong if_cong)

lemma fit_without_split:
  "\<not> handle_cv_failure self \<Longrightarrow>
     fit (env\<lparr>train_test_split := split'\<rparr>) self X_train y_train \<sigma> =
     fit env self X_train y_train \<sigma>"
  by (simp add: fit_def fit_try_without_split cong: prod.case_cong sum.case_cong)

text \<open>The seed handed to the optimizer is 42 on every run: an optimizer that behaves
  differently on any other seed gives the same \<^verbatim>\<open>fit\<close>.\<close>

lemma f_orig_SMAC: "f (env\<lparr>orig_SMAC := g\<rparr>) = f env"
  by (rule ext)+
     (simp add: f_def smac_train_test_def Let_def
           cong: prod.case_cong sum.case_cong if_cong)

lemma fit_try_seed:
  "fit_try (env\<lparr>orig_SMAC := \<lambda>scen seed. if seed = RandomState 42 then orig_SMAC env scen seed
                                           else other scen seed\<rparr>) self X_train y_train \<sigma> =
   fit_try env self X_train y_train \<sigma>"
  by (simp add: fit_try_def f_orig_SMAC Let_def
       cong: prod.case_cong sum.case_cong if_cong)

lemma fit_seed:
  "fit (env\<lparr>orig_SMAC := \<lambda>scen seed. if seed = RandomState 42 then orig_SMAC env scen seed
                                       else other scen seed\<rparr>) self X_train y_train \<sigma> =
   fit env self X_train y_train \<sigma>"
  by (simp add: fit_def fit_try_seed cong: prod.case_cong sum.case_cong)

end
